theory Spec2Isabelle
  imports Main "HOL-Library.AList"
begin

section \<open>Python values and strings\<close>

text \<open>
  The exceptions that the modelled code raises or lets through. \<open>LibraryError\<close> stands for
  any exception raised inside a library call (pandas, the Groq client, Chroma, the
  embedding model); its argument names the exception.
\<close>

datatype error =
    RuntimeError
  | FileNotFoundError
  | JSONDecodeError
  | AttributeError
  | TypeError
  | LibraryError string

text \<open>
  The values \<open>json.loads\<close> produces. A number keeps its lexeme; a dict is an association
  list in insertion order.
\<close>

datatype json =
    JNull
  | JBool bool
  | JNum string
  | JStr string
  | JArr "json list"
  | JObj "(string \<times> json) list"

text \<open>
  A \<open>char\<close> stands for a code point below 256. \<open>str.isspace\<close> holds there for the
  code points 9 to 13, 28 to 32, 133 and 160.
\<close>

definition isspace :: "char \<Rightarrow> bool" where
  "isspace c \<longleftrightarrow>
     (let n = (of_char c :: nat)
      in (9 \<le> n \<and> n \<le> 13) \<or> (28 \<le> n \<and> n \<le> 32) \<or> n = 133 \<or> n = 160)"

text \<open>\<open>s.strip()\<close>\<close>

definition str_strip :: "string \<Rightarrow> string" where
  "str_strip s = rev (dropWhile isspace (rev (dropWhile isspace s)))"

text \<open>\<open>s.find(c)\<close> and \<open>s.rfind(c)\<close> for a one-character needle: the index, or \<open>-1\<close>.\<close>

definition str_find :: "string \<Rightarrow> char \<Rightarrow> int" where
  "str_find s c =
     (if c \<in> set s then int (length (takeWhile (\<lambda>x. x \<noteq> c) s)) else - 1)"

definition str_rfind :: "string \<Rightarrow> char \<Rightarrow> int" where
  "str_rfind s c =
     (if c \<in> set s
      then int (length s) - 1 - int (length (takeWhile (\<lambda>x. x \<noteq> c) (rev s)))
      else - 1)"

text \<open>\<open>s[i:j]\<close>: a negative index counts from the end, and both are clipped to the string.\<close>

definition clip_index :: "nat \<Rightarrow> int \<Rightarrow> nat" where
  "clip_index n i = (let j = (if i < 0 then i + int n else i) in min n (nat j))"

definition str_slice :: "string \<Rightarrow> int \<Rightarrow> int \<Rightarrow> string" where
  "str_slice s i j =
     (let lo = clip_index (length s) i; hi = clip_index (length s) j
      in take (hi - lo) (drop lo s))"

text \<open>\<open>sep.join(parts)\<close>\<close>

fun str_join :: "string \<Rightarrow> string list \<Rightarrow> string" where
  "str_join sep [] = []"
| "str_join sep [x] = x"
| "str_join sep (x # y # ys) = x @ sep @ str_join sep (y # ys)"

section \<open>A JSON decoder\<close>

text \<open>
  \<open>json.loads\<close> belongs to the Python standard library. The ingestion code takes it as
  the field \<open>json_loads\<close> of its environment; the decoder below is the instance used in
  the closed examples. It follows the grammar of the standard decoder (white space, the
  literals, \<open>NaN\<close> and the infinities, numbers, strings with escapes, arrays, objects in
  which a repeated key keeps its place and takes the last value, no trailing data). A
  \<open>\u\<close> escape of a code point above 255 has no \<open>char\<close> and is rejected here.
\<close>

definition json_ws :: "char \<Rightarrow> bool" where
  "json_ws c \<longleftrightarrow> c = CHR '' '' \<or> c = CHR 0x09 \<or> c = CHR 0x0A \<or> c = CHR 0x0D"

definition skip_ws :: "string \<Rightarrow> string" where
  "skip_ws = dropWhile json_ws"

definition is_digit :: "char \<Rightarrow> bool" where
  "is_digit c \<longleftrightarrow> (48 \<le> (of_char c :: nat) \<and> (of_char c :: nat) \<le> 57)"

definition hex_val :: "char \<Rightarrow> nat option" where
  "hex_val c =
     (let n = (of_char c :: nat)
      in if 48 \<le> n \<and> n \<le> 57 then Some (n - 48)
         else if 97 \<le> n \<and> n \<le> 102 then Some (n - 87)
         else if 65 \<le> n \<and> n \<le> 70 then Some (n - 55)
         else None)"

definition hex4 :: "char \<Rightarrow> char \<Rightarrow> char \<Rightarrow> char \<Rightarrow> nat option" where
  "hex4 a b c d =
     (case (hex_val a, hex_val b, hex_val c, hex_val d) of
        (Some x, Some y, Some z, Some u) \<Rightarrow> Some (((x * 16 + y) * 16 + z) * 16 + u)
      | _ \<Rightarrow> None)"

definition unescape :: "char \<Rightarrow> char option" where
  "unescape e =
     (if e = CHR 0x22 then Some (CHR 0x22)
      else if e = CHR 0x5C then Some (CHR 0x5C)
      else if e = CHR ''/'' then Some (CHR ''/'')
      else if e = CHR ''b'' then Some (CHR 0x08)
      else if e = CHR ''f'' then Some (CHR 0x0C)
      else if e = CHR ''n'' then Some (CHR 0x0A)
      else if e = CHR ''r'' then Some (CHR 0x0D)
      else if e = CHR ''t'' then Some (CHR 0x09)
      else None)"

text \<open>The body of a string, after the opening quote; the characters read so far are reversed.\<close>

fun scan_string :: "string \<Rightarrow> string \<Rightarrow> (string \<times> string) option" where
  "scan_string acc [] = None"
| "scan_string acc [c] = (if c = CHR 0x22 then Some (rev acc, []) else None)"
| "scan_string acc (c # e # cs) =
     (if c = CHR 0x22 then Some (rev acc, e # cs)
      else if c = CHR 0x5C then
        (if e = CHR ''u'' then
           (case cs of
              h1 # h2 # h3 # h4 # cs' \<Rightarrow>
                (case hex4 h1 h2 h3 h4 of
                   Some n \<Rightarrow> if n < 256 then scan_string (char_of n # acc) cs' else None
                 | None \<Rightarrow> None)
            | _ \<Rightarrow> None)
         else
           (case unescape e of
              Some ch \<Rightarrow> scan_string (ch # acc) cs
            | None \<Rightarrow> None))
      else if (of_char c :: nat) < 32 then None
      else scan_string (c # acc) (e # cs))"

text \<open>The longest prefix matched by the number pattern of the decoder, and the rest.\<close>

definition scan_int :: "string \<Rightarrow> (string \<times> string) option" where
  "scan_int cs =
     (case cs of
        [] \<Rightarrow> None
      | d # r \<Rightarrow>
          if d = CHR ''0'' then Some ([d], r)
          else if is_digit d then Some (takeWhile is_digit cs, dropWhile is_digit cs)
          else None)"

definition scan_frac :: "string \<Rightarrow> string \<times> string" where
  "scan_frac cs =
     (case cs of
        [] \<Rightarrow> ([], cs)
      | d # r \<Rightarrow>
          if d = CHR ''.'' \<and> takeWhile is_digit r \<noteq> []
          then (d # takeWhile is_digit r, dropWhile is_digit r)
          else ([], cs))"

definition scan_exp :: "string \<Rightarrow> string \<times> string" where
  "scan_exp cs =
     (case cs of
        [] \<Rightarrow> ([], cs)
      | e # r \<Rightarrow>
          if e = CHR ''e'' \<or> e = CHR ''E'' then
            (let sgn = (case r of
                          [] \<Rightarrow> []
                        | s # _ \<Rightarrow> if s = CHR ''+'' \<or> s = CHR ''-'' then [s] else []);
                 r' = drop (length sgn) r
             in if takeWhile is_digit r' \<noteq> []
                then (e # sgn @ takeWhile is_digit r', dropWhile is_digit r')
                else ([], cs))
          else ([], cs))"

definition scan_number :: "string \<Rightarrow> (string \<times> string) option" where
  "scan_number cs =
     (let sgn = (case cs of [] \<Rightarrow> [] | s # _ \<Rightarrow> if s = CHR ''-'' then [s] else [])
      in case scan_int (drop (length sgn) cs) of
           None \<Rightarrow> None
         | Some (ip, r1) \<Rightarrow>
             (let (fp, r2) = scan_frac r1; (ep, r3) = scan_exp r2
              in Some (sgn @ ip @ fp @ ep, r3)))"

definition starts_with :: "string \<Rightarrow> string \<Rightarrow> bool" where
  "starts_with p s \<longleftrightarrow> take (length p) s = p"

definition scan_atom :: "string \<Rightarrow> (json \<times> string) option" where
  "scan_atom cs =
     (if starts_with ''null'' cs then Some (JNull, drop 4 cs)
      else if starts_with ''true'' cs then Some (JBool True, drop 4 cs)
      else if starts_with ''false'' cs then Some (JBool False, drop 5 cs)
      else case scan_number cs of
             Some (lexeme, r) \<Rightarrow> Some (JNum lexeme, r)
           | None \<Rightarrow>
               if starts_with ''NaN'' cs then Some (JNum ''NaN'', drop 3 cs)
               else if starts_with ''Infinity'' cs then Some (JNum ''Infinity'', drop 8 cs)
               else if starts_with ''-Infinity'' cs then Some (JNum ''-Infinity'', drop 9 cs)
               else None)"

text \<open>
  The recursive descent. The first argument bounds the number of nested and successive
  values; \<open>json_loads\<close> starts it above what a text of that length can need.
\<close>

fun parse_value :: "nat \<Rightarrow> string \<Rightarrow> (json \<times> string) option"
  and parse_elems :: "nat \<Rightarrow> json list \<Rightarrow> string \<Rightarrow> (json \<times> string) option"
  and parse_members :: "nat \<Rightarrow> (string \<times> json) list \<Rightarrow> string \<Rightarrow> (json \<times> string) option"
where
  "parse_value 0 cs = None"
| "parse_value (Suc n) [] = None"
| "parse_value (Suc n) (c # r) =
     (if c = CHR 0x22 then
        (case scan_string [] r of None \<Rightarrow> None | Some (s, r') \<Rightarrow> Some (JStr s, r'))
      else if c = CHR ''['' then
        (case skip_ws r of
           [] \<Rightarrow> None
         | d # r' \<Rightarrow> if d = CHR '']'' then Some (JArr [], r') else parse_elems n [] (d # r'))
      else if c = CHR ''{'' then
        (case skip_ws r of
           [] \<Rightarrow> None
         | d # r' \<Rightarrow> if d = CHR ''}'' then Some (JObj [], r') else parse_members n [] (d # r'))
      else scan_atom (c # r))"
| "parse_elems 0 acc cs = None"
| "parse_elems (Suc n) acc cs =
     (case parse_value n cs of
        None \<Rightarrow> None
      | Some (v, r) \<Rightarrow>
          (case skip_ws r of
             [] \<Rightarrow> None
           | d # r' \<Rightarrow>
               if d = CHR '']'' then Some (JArr (acc @ [v]), r')
               else if d = CHR '','' then parse_elems n (acc @ [v]) (skip_ws r')
               else None))"
| "parse_members 0 acc cs = None"
| "parse_members (Suc n) acc [] = None"
| "parse_members (Suc n) acc (q # r) =
     (if q \<noteq> CHR 0x22 then None
      else case scan_string [] r of
             None \<Rightarrow> None
           | Some (k, r1) \<Rightarrow>
               (case skip_ws r1 of
                  [] \<Rightarrow> None
                | colon # r2 \<Rightarrow>
                    if colon \<noteq> CHR '':'' then None
                    else case parse_value n (skip_ws r2) of
                           None \<Rightarrow> None
                         | Some (v, r3) \<Rightarrow>
                             (case skip_ws r3 of
                                [] \<Rightarrow> None
                              | d # r4 \<Rightarrow>
                                  if d = CHR ''}'' then Some (JObj (AList.update k v acc), r4)
                                  else if d = CHR '','' then
                                    parse_members n (AList.update k v acc) (skip_ws r4)
                                  else None)))"

definition json_loads_std :: "string \<Rightarrow> error + json" where
  "json_loads_std s =
     (case parse_value (2 * length s + 2) (skip_ws s) of
        None \<Rightarrow> Inl JSONDecodeError
      | Some (v, r) \<Rightarrow> if skip_ws r = [] then Inr v else Inl JSONDecodeError)"

section \<open>ingest.py\<close>

subsection \<open>Documents\<close>

text \<open>A langchain \<open>Document\<close>; the metadata dict is an association list in insertion order.\<close>

record document =
  page_content :: string
  metadata :: "(string \<times> string) list"

text \<open>\<open>pair.get(key, "")\<close>: only a dict has \<open>get\<close>.\<close>

definition pair_get :: "json \<Rightarrow> string \<Rightarrow> error + json" where
  "pair_get pair key =
     (case pair of
        JObj kvs \<Rightarrow> (case map_of kvs key of None \<Rightarrow> Inr (JStr []) | Some v \<Rightarrow> Inr v)
      | _ \<Rightarrow> Inl AttributeError)"

text \<open>\<open>v.strip()\<close>: only a str has \<open>strip\<close>.\<close>

definition value_strip :: "json \<Rightarrow> error + string" where
  "value_strip v = (case v of JStr s \<Rightarrow> Inr (str_strip s) | _ \<Rightarrow> Inl AttributeError)"

definition pair_field :: "json \<Rightarrow> string \<Rightarrow> error + string" where
  "pair_field pair key =
     (case pair_get pair key of Inl e \<Rightarrow> Inl e | Inr v \<Rightarrow> value_strip v)"

definition qa_document :: "(string \<times> string) list \<Rightarrow> string \<Rightarrow> string \<Rightarrow> document" where
  "qa_document md q a =
     \<lparr>page_content = ''Q: '' @ q @ ''\<newline>A: '' @ a,
      metadata = AList.update ''question'' q md\<rparr>"

text \<open>The loop of \<open>pairs_to_documents\<close> over the elements of a list, \<open>docs\<close> being the list built so far.\<close>

fun pairs_loop :: "json list \<Rightarrow> (string \<times> string) list \<Rightarrow> document list \<Rightarrow> error + document list" where
  "pairs_loop [] md docs = Inr docs"
| "pairs_loop (pair # rest) md docs =
     (case pair_field pair ''question'' of
        Inl e \<Rightarrow> Inl e
      | Inr q \<Rightarrow>
          (case pair_field pair ''answer'' of
             Inl e \<Rightarrow> Inl e
           | Inr a \<Rightarrow>
               if q \<noteq> [] \<and> a \<noteq> [] then pairs_loop rest md (docs @ [qa_document md q a])
               else pairs_loop rest md docs))"

text \<open>
  \<open>pairs_to_documents\<close>. The argument is whatever the decoder returned: iterating over a
  dict yields its keys and over a str its characters, which have no \<open>get\<close>; the other
  values are not iterable.
\<close>

definition pairs_to_documents :: "json \<Rightarrow> (string \<times> string) list \<Rightarrow> error + document list" where
  "pairs_to_documents pairs md =
     (case pairs of
        JArr ps \<Rightarrow> pairs_loop ps md []
      | JObj kvs \<Rightarrow> if kvs = [] then Inr [] else Inl AttributeError
      | JStr s \<Rightarrow> if s = [] then Inr [] else Inl AttributeError
      | _ \<Rightarrow> Inl TypeError)"

text \<open>The pair the system prompt asks the model for: \<open>{"question": q, "answer": a}\<close>.\<close>

definition qa_pair :: "string \<Rightarrow> string \<Rightarrow> json" where
  "qa_pair q a = JObj [(''question'', JStr q), (''answer'', JStr a)]"

text \<open>The test \<open>if q and a\<close> on the stripped fields of such a pair.\<close>

definition kept :: "string \<times> string \<Rightarrow> bool" where
  "kept qa \<longleftrightarrow> str_strip (fst qa) \<noteq> [] \<and> str_strip (snd qa) \<noteq> []"

subsection \<open>The environment and the state\<close>

text \<open>
  What the ingestion reads from outside the repository, for a table type \<open>'df\<close> (a pandas
  DataFrame):
  \<^item> \<open>groq_api_key\<close>: \<open>os.getenv("GROQ_API_KEY")\<close>;
  \<^item> \<open>docs_dir\<close>: the file names of \<open>DOCS_DIR\<close>, in the order \<open>glob\<close> yields them;
  \<^item> \<open>read_excel\<close>: \<open>pd.read_excel\<close> on a file of \<open>DOCS_DIR\<close>;
  \<^item> the four prompt texts, which the code builds from the tables with pandas, or the
    exception raised while building them;
  \<^item> \<open>chat n prompt\<close>: the content of the reply to \<open>prompt\<close> when \<open>n\<close> requests were sent
    before it, or the exception raised by the request;
  \<^item> \<open>json_loads\<close>: \<open>json.loads\<close>;
  \<^item> \<open>load_embeddings\<close>: the exception raised by \<open>HuggingFaceEmbeddings\<close>, if any;
  \<^item> \<open>from_documents\<close>: the exception raised by \<open>Chroma.from_documents\<close>, if any, and
    \<open>write_residue\<close>: what such a failed write leaves in \<open>CHROMA_DIR\<close>;
  \<^item> \<open>open_chroma\<close> and \<open>count_collection\<close>: the exceptions raised, if any, when main.py
    opens the persisted collection again and when it counts its documents.
\<close>

record 'df env =
  groq_api_key :: "string option"
  docs_dir :: "string list"
  read_excel :: "string \<Rightarrow> error + 'df"
  defect_prompt :: "'df \<Rightarrow> string \<Rightarrow> string \<Rightarrow> error + string"
  test_prompt :: "'df \<Rightarrow> string \<Rightarrow> string \<Rightarrow> error + string"
  metadata_prompt :: "'df \<Rightarrow> string \<Rightarrow> string \<Rightarrow> error + string"
  cross_release_prompt :: "'df \<Rightarrow> 'df \<Rightarrow> 'df \<Rightarrow> 'df \<Rightarrow> 'df \<Rightarrow> 'df \<Rightarrow> error + string"
  chat :: "nat \<Rightarrow> string \<Rightarrow> error + string"
  json_loads :: "string \<Rightarrow> error + json"
  load_embeddings :: "error option"
  from_documents :: "document list \<Rightarrow> error option"
  write_residue :: "document list \<Rightarrow> document list option"
  open_chroma :: "error option"
  count_collection :: "error option"

datatype warning = Could_not_locate_JSON_array

text \<open>
  The state the ingestion changes: the collection persisted in \<open>CHROMA_DIR\<close> (\<open>None\<close> when
  the directory does not exist), the prompts sent to the language model so far, and the
  warnings printed so far.
\<close>

record world =
  chroma_dir :: "document list option"
  llm_calls :: "string list"
  warnings :: "warning list"

subsection \<open>The call of the language model\<close>

definition call_llm :: "'df env \<Rightarrow> string \<Rightarrow> world \<Rightarrow> (error + json) \<times> world" where
  "call_llm env user_prompt w =
     (let w1 = w\<lparr>llm_calls := llm_calls w @ [user_prompt]\<rparr>
      in case chat env (length (llm_calls w)) user_prompt of
           Inl e \<Rightarrow> (Inl e, w1)
         | Inr content \<Rightarrow>
             (let raw = str_strip content;
                  start = str_find raw (CHR ''['');
                  end = str_rfind raw (CHR '']'') + 1
              in if start = - 1 \<or> end = 0
                 then (Inr (JArr []), w1\<lparr>warnings := warnings w1 @ [Could_not_locate_JSON_array]\<rparr>)
                 else (json_loads env (str_slice raw start end), w1)))"

subsection \<open>The generators\<close>

text \<open>
  The common body of the four generators: the prompt is built, the model is called, the
  pairs are packaged with the metadata of the pass.
\<close>

definition qa_pass ::
  "'df env \<Rightarrow> error + string \<Rightarrow> (string \<times> string) list \<Rightarrow> world \<Rightarrow> (error + document list) \<times> world" where
  "qa_pass env prompt md w =
     (case prompt of
        Inl e \<Rightarrow> (Inl e, w)
      | Inr p \<Rightarrow>
          (case call_llm env p w of
             (Inl e, w') \<Rightarrow> (Inl e, w')
           | (Inr pairs, w') \<Rightarrow> (pairs_to_documents pairs md, w')))"

definition qa_for_defects ::
  "'df env \<Rightarrow> 'df \<Rightarrow> string \<Rightarrow> string \<Rightarrow> world \<Rightarrow> (error + document list) \<times> world" where
  "qa_for_defects env df release filename =
     qa_pass env (defect_prompt env df release filename)
       [(''source'', filename), (''doc_type'', ''defect''), (''release'', release)]"

definition qa_for_tests ::
  "'df env \<Rightarrow> 'df \<Rightarrow> string \<Rightarrow> string \<Rightarrow> world \<Rightarrow> (error + document list) \<times> world" where
  "qa_for_tests env df release filename =
     qa_pass env (test_prompt env df release filename)
       [(''source'', filename), (''doc_type'', ''test_execution''), (''release'', release)]"

definition qa_for_metadata ::
  "'df env \<Rightarrow> 'df \<Rightarrow> string \<Rightarrow> string \<Rightarrow> world \<Rightarrow> (error + document list) \<times> world" where
  "qa_for_metadata env df release filename =
     qa_pass env (metadata_prompt env df release filename)
       [(''source'', filename), (''doc_type'', ''metadata''), (''release'', release)]"

definition qa_cross_release ::
  "'df env \<Rightarrow> 'df \<Rightarrow> 'df \<Rightarrow> 'df \<Rightarrow> 'df \<Rightarrow> 'df \<Rightarrow> 'df \<Rightarrow> world \<Rightarrow> (error + document list) \<times> world" where
  "qa_cross_release env defects_a tests_a meta_a defects_b tests_b meta_b =
     qa_pass env (cross_release_prompt env defects_a tests_a meta_a defects_b tests_b meta_b)
       [(''source'', ''cross_release''), (''doc_type'', ''comparison''), (''release'', ''all'')]"

subsection \<open>The orchestrator\<close>

text \<open>\<open>DOCS_DIR.glob(f"*{name}*.xlsx")\<close>, on a case-sensitive file system.\<close>

fun occurs :: "string \<Rightarrow> string \<Rightarrow> bool" where
  "occurs p [] = (p = [])"
| "occurs p (c # cs) = (starts_with p (c # cs) \<or> occurs p cs)"

definition glob_match :: "string \<Rightarrow> string \<Rightarrow> bool" where
  "glob_match name f \<longleftrightarrow>
     5 \<le> length f \<and> drop (length f - 5) f = ''.xlsx'' \<and> occurs name (take (length f - 5) f)"

definition load :: "'df env \<Rightarrow> string \<Rightarrow> error + ('df \<times> string)" where
  "load env name =
     (case filter (glob_match name) (docs_dir env) of
        [] \<Rightarrow> Inl FileNotFoundError
      | m # _ \<Rightarrow> (case read_excel env m of Inl e \<Rightarrow> Inl e | Inr df \<Rightarrow> Inr (df, m)))"

definition dataset_names :: "string list" where
  "dataset_names =
     [''ReleaseA_Defects'', ''ReleaseA_TestExecution'', ''ReleaseA_Meta'',
      ''ReleaseB_Defects'', ''ReleaseB_TestExecution'', ''ReleaseB_Meta'']"

text \<open>The six loads, in the order of the source; the first exception ends them.\<close>

fun load_each :: "'df env \<Rightarrow> string list \<Rightarrow> error + ('df \<times> string) list" where
  "load_each env [] = Inr []"
| "load_each env (name # names) =
     (case load env name of
        Inl e \<Rightarrow> Inl e
      | Inr d \<Rightarrow> (case load_each env names of Inl e \<Rightarrow> Inl e | Inr ds \<Rightarrow> Inr (d # ds)))"

text \<open>A generation call of \<open>ingest\<close>, and \<open>all_docs += ...\<close> over a sequence of them.\<close>

type_synonym pass = "world \<Rightarrow> (error + document list) \<times> world"

fun run_passes :: "pass list \<Rightarrow> document list \<Rightarrow> world \<Rightarrow> (error + document list) \<times> world" where
  "run_passes [] all_docs w = (Inr all_docs, w)"
| "run_passes (p # ps) all_docs w =
     (case p w of
        (Inl e, w') \<Rightarrow> (Inl e, w')
      | (Inr docs, w') \<Rightarrow> run_passes ps (all_docs @ docs) w')"

text \<open>The six per-file calls of pass 1 and the cross-release call of pass 2.\<close>

fun passes :: "'df env \<Rightarrow> ('df \<times> string) list \<Rightarrow> pass list" where
  "passes env [(defects_a, fn_da), (tests_a, fn_ta), (meta_a, fn_ma),
               (defects_b, fn_db), (tests_b, fn_tb), (meta_b, fn_mb)] =
     [qa_for_defects env defects_a ''ReleaseA'' fn_da,
      qa_for_tests env tests_a ''ReleaseA'' fn_ta,
      qa_for_metadata env meta_a ''ReleaseA'' fn_ma,
      qa_for_defects env defects_b ''ReleaseB'' fn_db,
      qa_for_tests env tests_b ''ReleaseB'' fn_tb,
      qa_for_metadata env meta_b ''ReleaseB'' fn_mb,
      qa_cross_release env defects_a tests_a meta_a defects_b tests_b meta_b]"
| "passes env _ = []"

text \<open>Loading and generation: everything \<open>ingest\<close> does before it touches \<open>CHROMA_DIR\<close>.\<close>

definition generate :: "'df env \<Rightarrow> world \<Rightarrow> (error + document list) \<times> world" where
  "generate env w =
     (case groq_api_key env of
        None \<Rightarrow> (Inl RuntimeError, w)
      | Some key \<Rightarrow>
          if key = [] then (Inl RuntimeError, w)
          else (case load_each env dataset_names of
                  Inl e \<Rightarrow> (Inl e, w)
                | Inr dfs \<Rightarrow> run_passes (passes env dfs) [] w))"

text \<open>Clearing the stale collection and writing the new one.\<close>

definition commit :: "'df env \<Rightarrow> document list \<Rightarrow> world \<Rightarrow> (error + document list) \<times> world" where
  "commit env all_docs w =
     (let w1 = w\<lparr>chroma_dir := None\<rparr>
      in case load_embeddings env of
           Some e \<Rightarrow> (Inl e, w1)
         | None \<Rightarrow>
             (case from_documents env all_docs of
                Some e \<Rightarrow> (Inl e, w1\<lparr>chroma_dir := write_residue env all_docs\<rparr>)
              | None \<Rightarrow> (Inr all_docs, w1\<lparr>chroma_dir := Some all_docs\<rparr>)))"

text \<open>\<open>ingest\<close>; the vector store it returns is identified with the documents it holds.\<close>

definition ingest :: "'df env \<Rightarrow> world \<Rightarrow> (error + document list) \<times> world" where
  "ingest env w =
     (case generate env w of
        (Inl e, w') \<Rightarrow> (Inl e, w')
      | (Inr all_docs, w') \<Rightarrow> commit env all_docs w')"

section \<open>main.py\<close>

subsection \<open>Application state\<close>

text \<open>
  The module globals: the vector store handle (identified with the documents of the
  collection it was opened on), the chat model handle, the ingestion lock (\<open>True\<close> when
  held) and the running flag.
\<close>

record app =
  vectorstore :: "document list option"
  llm :: "unit option"
  ingest_lock :: bool
  ingest_running :: bool

subsection \<open>Background ingestion\<close>

text \<open>
  \<open>_reload_vectorstore\<close>. Opening a directory that does not exist creates an empty
  collection. The global is assigned before the count is printed.
\<close>

definition reload_vectorstore :: "'df env \<Rightarrow> app \<Rightarrow> world \<Rightarrow> (error + unit) \<times> app \<times> world" where
  "reload_vectorstore env a w =
     (case open_chroma env of
        Some e \<Rightarrow> (Inl e, a, w)
      | None \<Rightarrow>
          (let docs = (case chroma_dir w of None \<Rightarrow> [] | Some d \<Rightarrow> d);
               a' = a\<lparr>vectorstore := Some docs\<rparr>;
               w' = w\<lparr>chroma_dir := Some docs\<rparr>
           in case count_collection env of
                Some e \<Rightarrow> (Inl e, a', w')
              | None \<Rightarrow> (Inr (), a', w')))"

text \<open>How a call of \<open>_run_ingest\<close> ends: by the message it prints.\<close>

datatype outcome = Skipped | Done | Failed error

text \<open>The \<open>try\<close> block of \<open>_run_ingest\<close> with its \<open>except\<close> clause.\<close>

definition try_ingest :: "'df env \<Rightarrow> app \<Rightarrow> world \<Rightarrow> outcome \<times> app \<times> world" where
  "try_ingest env a w =
     (case ingest env w of
        (Inl e, w') \<Rightarrow> (Failed e, a, w')
      | (Inr store, w') \<Rightarrow>
          (case reload_vectorstore env a w' of
             (Inl e, a', w'') \<Rightarrow> (Failed e, a', w'')
           | (Inr u, a', w'') \<Rightarrow> (Done, a', w'')))"

text \<open>\<open>_run_ingest\<close>, run without interference from other threads.\<close>

definition run_ingest :: "'df env \<Rightarrow> app \<Rightarrow> world \<Rightarrow> outcome \<times> app \<times> world" where
  "run_ingest env a w =
     (if ingest_lock a then (Skipped, a, w)
      else
        (let a1 = a\<lparr>ingest_lock := True\<rparr>;
             a2 = a1\<lparr>ingest_running := True\<rparr>
         in case try_ingest env a2 w of
              (res, a3, w3) \<Rightarrow>
                (let a4 = a3\<lparr>ingest_running := False\<rparr>;
                     a5 = a4\<lparr>ingest_lock := False\<rparr>
                 in (res, a5, w3))))"

subsection \<open>Threads running \<open>_run_ingest\<close>\<close>

text \<open>
  The places of a thread inside \<open>_run_ingest\<close>: before the \<open>acquire\<close>, after it, after
  the flag is set, after the \<open>try\<close> block, after the flag is cleared, and after the
  return. Each step is one statement; the \<open>try\<close> block is one step, since no other
  statement of a thread in \<open>_run_ingest\<close> reads or writes what it changes.
\<close>

datatype pc = Start | Acquired | Flagged | Finally outcome | Unflagged outcome | Returned outcome

fun thread_step :: "'df env \<Rightarrow> pc \<Rightarrow> app \<Rightarrow> world \<Rightarrow> pc \<times> app \<times> world" where
  "thread_step env Start a w =
     (if ingest_lock a then (Returned Skipped, a, w)
      else (Acquired, a\<lparr>ingest_lock := True\<rparr>, w))"
| "thread_step env Acquired a w = (Flagged, a\<lparr>ingest_running := True\<rparr>, w)"
| "thread_step env Flagged a w =
     (case try_ingest env a w of (res, a', w') \<Rightarrow> (Finally res, a', w'))"
| "thread_step env (Finally res) a w = (Unflagged res, a\<lparr>ingest_running := False\<rparr>, w)"
| "thread_step env (Unflagged res) a w = (Returned res, a\<lparr>ingest_lock := False\<rparr>, w)"
| "thread_step env (Returned res) a w = (Returned res, a, w)"

text \<open>The places at which a thread holds the lock.\<close>

fun inside :: "pc \<Rightarrow> bool" where
  "inside Start = False"
| "inside (Returned res) = False"
| "inside _ = True"

text \<open>
  The process: the globals, the persisted state and the threads that were given
  \<open>_run_ingest\<close> to run. A trigger adds a thread; otherwise one thread that has not
  returned takes its next step. Thread \<open>t\<close> runs in the environment \<open>envs t\<close>.
\<close>

inductive sys_step ::
  "(nat \<Rightarrow> 'df env) \<Rightarrow> app \<times> world \<times> pc list \<Rightarrow> app \<times> world \<times> pc list \<Rightarrow> bool"
  for envs :: "nat \<Rightarrow> 'df env" where
  trigger: "sys_step envs (a, w, pcs) (a, w, pcs @ [Start])"
| step: "t < length pcs \<Longrightarrow> thread_step (envs t) (pcs ! t) a w = (p', a', w') \<Longrightarrow>
         sys_step envs (a, w, pcs) (a', w', pcs[t := p'])"

inductive reachable :: "(nat \<Rightarrow> 'df env) \<Rightarrow> app \<times> world \<times> pc list \<Rightarrow> bool"
  for envs :: "nat \<Rightarrow> 'df env" where
  init: "\<not> ingest_lock a \<Longrightarrow> \<not> ingest_running a \<Longrightarrow> reachable envs (a, w, [])"
| after: "reachable envs c \<Longrightarrow> sys_step envs c c' \<Longrightarrow> reachable envs c'"

subsection \<open>The query endpoint\<close>

text \<open>A Chroma \<open>where\<close> clause: \<open>{field: value}\<close> or \<open>{"$and": [...]}\<close>.\<close>

datatype where_filter = Eq string string | And "where_filter list"

record query_request =
  req_question :: string
  req_release :: "string option"
  req_doc_type :: "string option"
  req_k :: int

record source_document =
  content :: string
  source_metadata :: "(string \<times> string) list"

record query_response =
  answer :: string
  sources :: "source_document list"

datatype detail = Service_not_ready | Ingestion_in_progress

text \<open>
  How a request fails: an \<open>HTTPException\<close> raised by the handler, with its status code, or
  an exception of a library call that escapes the handler.
\<close>

datatype failure = HTTPException nat detail | Unhandled error

text \<open>
  The library calls of the handler: the similarity search of a store for a question with
  \<open>k\<close> and an optional filter, and the prompt chain run on a context and a question.
\<close>

record query_env =
  similarity_search :: "document list \<Rightarrow> string \<Rightarrow> int \<Rightarrow> where_filter option \<Rightarrow> error + document list"
  chain_invoke :: "string \<Rightarrow> string \<Rightarrow> error + string"

text \<open>\<open>x if x not in (None, "string") else None\<close>\<close>

definition ignore_placeholder :: "string option \<Rightarrow> string option" where
  "ignore_placeholder x = (if x \<noteq> None \<and> x \<noteq> Some ''string'' then x else None)"

text \<open>
  The construction of \<open>where\<close> from \<open>release\<close> and \<open>doc_type\<close>, the same text in
  \<open>query\<close> and in \<open>debug_query\<close>. A value is appended when it is truthy: neither \<open>None\<close>
  nor the empty string.
\<close>

definition build_where :: "string option \<Rightarrow> string option \<Rightarrow> where_filter option" where
  "build_where release doc_type =
     (let filters =
            (case release of
               None \<Rightarrow> []
             | Some r \<Rightarrow> if r \<noteq> [] then [Eq ''release'' r] else []) @
            (case doc_type of
               None \<Rightarrow> []
             | Some d \<Rightarrow> if d \<noteq> [] then [Eq ''doc_type'' d] else [])
      in if length filters = 2 then Some (And filters)
         else if length filters = 1 then Some (hd filters)
         else None)"

text \<open>
  The inputs that \<open>query\<close> leaves out of the filter list: those its first two lines turn
  into \<open>None\<close>, and those that are not truthy afterwards.
\<close>

definition absent :: "string option \<Rightarrow> bool" where
  "absent x \<longleftrightarrow> (case ignore_placeholder x of None \<Rightarrow> True | Some s \<Rightarrow> s = [])"

text \<open>The filter of \<open>query\<close> (main.py) and the filter of \<open>debug_query\<close> (debug_query.py).\<close>

definition query_where :: "string option \<Rightarrow> string option \<Rightarrow> where_filter option" where
  "query_where release doc_type =
     build_where (ignore_placeholder release) (ignore_placeholder doc_type)"

definition debug_query_where :: "string option \<Rightarrow> string option \<Rightarrow> where_filter option" where
  "debug_query_where release doc_type = build_where release doc_type"

definition context_separator :: string where
  "context_separator = ''\<newline>\<newline>---\<newline>\<newline>''"

definition build_context :: "document list \<Rightarrow> string" where
  "build_context docs =
     (if docs \<noteq> [] then str_join context_separator (map page_content docs)
      else ''No relevant documents were found.'')"

definition to_source :: "document \<Rightarrow> source_document" where
  "to_source doc = \<lparr>content = page_content doc, source_metadata = metadata doc\<rparr>"

definition query :: "query_env \<Rightarrow> app \<Rightarrow> query_request \<Rightarrow> failure + query_response" where
  "query qe a request =
     (case (vectorstore a, llm a) of
        (Some store, Some model) \<Rightarrow>
          if ingest_running a then Inl (HTTPException 503 Ingestion_in_progress)
          else
            (case similarity_search qe store (req_question request) (req_k request)
                    (query_where (req_release request) (req_doc_type request)) of
               Inl e \<Rightarrow> Inl (Unhandled e)
             | Inr docs \<Rightarrow>
                 (case chain_invoke qe (build_context docs) (req_question request) of
                    Inl e \<Rightarrow> Inl (Unhandled e)
                  | Inr reply \<Rightarrow> Inr \<lparr>answer = reply, sources = map to_source docs\<rparr>))
      | _ \<Rightarrow> Inl (HTTPException 503 Service_not_ready))"

section \<open>Examples\<close>

text \<open>
  A store of two documents, a search that returns the first \<open>k\<close> documents of the
  store, and a chain that answers with its context.
\<close>

definition example_store :: "document list" where
  "example_store =
     [\<lparr>page_content = ''Q: How many defects?\<newline>A: 12'',
       metadata = [(''source'', ''ReleaseA_Defects.xlsx''), (''doc_type'', ''defect''),
                   (''release'', ''ReleaseA''), (''question'', ''How many defects?'')]\<rparr>,
      \<lparr>page_content = ''Q: How many runs?\<newline>A: 40'',
       metadata = [(''source'', ''ReleaseA_TestExecution.xlsx''), (''doc_type'', ''test_execution''),
                   (''release'', ''ReleaseA''), (''question'', ''How many runs?'')]\<rparr>]"

definition example_query_env :: query_env where
  "example_query_env =
     \<lparr>similarity_search = (\<lambda>store q k f. Inr (take (nat k) store)),
      chain_invoke = (\<lambda>ctx q. Inr ctx)\<rparr>"

definition example_app :: app where
  "example_app =
     \<lparr>vectorstore = Some example_store, llm = Some (), ingest_lock = False,
      ingest_running = False\<rparr>"

definition example_request :: query_request where
  "example_request =
     \<lparr>req_question = ''most defects'', req_release = Some ''ReleaseA'',
      req_doc_type = None, req_k = 8\<rparr>"

text \<open>
  An ingestion environment over a folder of workbooks, in which a sheet is represented by
  the name of its file, the language model is a given function of the call number and the
  prompt, the decoder is the one above and no library call fails; and a state whose
  collection holds the example store.
\<close>

definition example_docs_dir :: "string list" where
  "example_docs_dir =
     [''ReleaseA_Defects.xlsx'', ''ReleaseA_TestExecution.xlsx'', ''ReleaseA_Meta.xlsx'',
      ''ReleaseB_Defects.xlsx'', ''ReleaseB_TestExecution.xlsx'', ''ReleaseB_Meta.xlsx'']"

definition example_env :: "string list \<Rightarrow> (nat \<Rightarrow> string \<Rightarrow> error + string) \<Rightarrow> string env" where
  "example_env files reply =
     \<lparr>groq_api_key = Some ''key'',
      docs_dir = files,
      read_excel = (\<lambda>f. Inr f),
      defect_prompt = (\<lambda>df release filename. Inr (''defects of '' @ release)),
      test_prompt = (\<lambda>df release filename. Inr (''tests of '' @ release)),
      metadata_prompt = (\<lambda>df release filename. Inr (''metadata of '' @ release)),
      cross_release_prompt = (\<lambda>da ta ma db tb mb. Inr ''comparison''),
      chat = reply,
      json_loads = json_loads_std,
      load_embeddings = None,
      from_documents = (\<lambda>docs. None),
      write_residue = (\<lambda>docs. None),
      open_chroma = None,
      count_collection = None\<rparr>"

definition example_world :: world where
  "example_world = \<lparr>chroma_dir = Some example_store, llm_calls = [], warnings = []\<rparr>"

text \<open>The reply of the specification's extraction example, and the array inside it.\<close>

definition robust_reply :: string where
  \<open>robust_reply = ''Sure, here it is: [{"question":"Q1","answer":"A1"}] thanks!''\<close>

definition robust_array :: string where
  \<open>robust_array = ''[{"question":"Q1","answer":"A1"}]''\<close>

section \<open>Verified properties\<close>

subsection \<open>Auxiliary facts\<close>

lemma str_join_Cons: "str_join sep (x # xs) = x @ concat (map (\<lambda>y. sep @ y) xs)"
  by (induction xs arbitrary: x) auto

lemma pair_field_qa_pair:
  "pair_field (qa_pair q a) ''question'' = Inr (str_strip q)"
  "pair_field (qa_pair q a) ''answer'' = Inr (str_strip a)"
  by (simp_all add: pair_field_def pair_get_def qa_pair_def value_strip_def)

lemma pairs_loop_qa_pairs:
  "pairs_loop (map (\<lambda>qa. qa_pair (fst qa) (snd qa)) qas) md docs =
     Inr (docs @ map (\<lambda>qa. qa_document md (str_strip (fst qa)) (str_strip (snd qa))) (filter kept qas))"
  by (induction qas arbitrary: docs) (simp_all add: pair_field_qa_pair kept_def)

subsection \<open>Searching, slicing and stripping strings\<close>

lemma str_find_absent: "c \<notin> set s \<Longrightarrow> str_find s c = - 1"
  by (simp add: str_find_def)

lemma str_rfind_absent: "c \<notin> set s \<Longrightarrow> str_rfind s c = - 1"
  by (simp add: str_rfind_def)

lemma str_find_present: "c \<in> set s \<Longrightarrow> 0 \<le> str_find s c"
  by (simp add: str_find_def)

lemma length_takeWhile_neq: "c \<in> set xs \<Longrightarrow> length (takeWhile (\<lambda>x. x \<noteq> c) xs) < length xs"
  by (induction xs) auto

lemma takeWhile_neq_first: "c \<notin> set pre \<Longrightarrow> takeWhile (\<lambda>x. x \<noteq> c) (pre @ c # rest) = pre"
  by (induction pre) auto

lemma str_rfind_present: "c \<in> set s \<Longrightarrow> 0 \<le> str_rfind s c"
  using length_takeWhile_neq [of c "rev s"] by (simp add: str_rfind_def)

lemma str_find_first: "c \<notin> set pre \<Longrightarrow> str_find (pre @ c # rest) c = int (length pre)"
  by (simp add: str_find_def takeWhile_neq_first)

lemma str_rfind_last: "c \<notin> set post \<Longrightarrow> str_rfind (pre @ c # post) c = int (length pre)"
  using takeWhile_neq_first [of c "rev post" "rev pre"] by (simp add: str_rfind_def)

lemma str_slice_middle:
  "str_slice (pre @ mid @ post) (int (length pre)) (int (length pre + length mid)) = mid"
  by (simp add: str_slice_def clip_index_def Let_def)

lemma str_slice_reversed:
  "0 \<le> i \<Longrightarrow> 0 \<le> j \<Longrightarrow> j \<le> i \<Longrightarrow> str_slice s i j = []"
  by (simp add: str_slice_def clip_index_def Let_def)

lemma str_strip_keeps:
  assumes "\<not> isspace a" "\<not> isspace b"
  shows "str_strip (pre @ a # mid @ b # post) =
           dropWhile isspace pre @ a # mid @ b # rev (dropWhile isspace (rev post))"
proof -
  have "dropWhile isspace (pre @ a # mid @ b # post) = dropWhile isspace pre @ a # mid @ b # post"
    using assms by (simp add: dropWhile_append3)
  moreover have "rev (dropWhile isspace pre @ a # mid @ b # post) =
      rev post @ b # (rev mid @ a # rev (dropWhile isspace pre))"
    by simp
  moreover have "dropWhile isspace (rev post @ b # (rev mid @ a # rev (dropWhile isspace pre))) =
      dropWhile isspace (rev post) @ b # (rev mid @ a # rev (dropWhile isspace pre))"
    using assms by (simp add: dropWhile_append3)
  ultimately show ?thesis by (simp add: str_strip_def)
qed

lemma set_dropWhile_keeps: "x \<in> set xs \<Longrightarrow> \<not> P x \<Longrightarrow> x \<in> set (dropWhile P xs)"
  by (induction xs) auto

lemma set_str_strip: "\<not> isspace c \<Longrightarrow> c \<in> set (str_strip s) \<longleftrightarrow> c \<in> set s"
proof
  assume "c \<in> set (str_strip s)"
  then have "c \<in> set (dropWhile isspace (rev (dropWhile isspace s)))"
    by (simp add: str_strip_def)
  then have "c \<in> set (rev (dropWhile isspace s))" by (rule set_dropWhileD)
  then have "c \<in> set (dropWhile isspace s)" by simp
  then show "c \<in> set s" by (rule set_dropWhileD)
next
  assume ns: "\<not> isspace c" and "c \<in> set s"
  then have "c \<in> set (rev (dropWhile isspace s))" by (simp add: set_dropWhile_keeps)
  with ns show "c \<in> set (str_strip s)" by (simp add: str_strip_def set_dropWhile_keeps)
qed

lemma brackets_not_space: "\<not> isspace (CHR ''['')" "\<not> isspace (CHR '']'')"
  by (simp_all add: isspace_def)


subsection \<open>The three outcomes of \<open>_call_llm\<close>\<close>

lemma call_llm_no_array:
  assumes "chat env (length (llm_calls w)) prompt = Inr reply"
    and "CHR ''['' \<notin> set reply \<or> CHR '']'' \<notin> set reply"
  shows "call_llm env prompt w =
           (Inr (JArr []),
            w\<lparr>llm_calls := llm_calls w @ [prompt],
              warnings := warnings w @ [Could_not_locate_JSON_array]\<rparr>)"
proof -
  from assms(2) have "str_find (str_strip reply) (CHR ''['') = - 1
      \<or> str_rfind (str_strip reply) (CHR '']'') = - 1"
    using str_find_absent [of "CHR ''[''" "str_strip reply"]
      str_rfind_absent [of "CHR '']''" "str_strip reply"]
    by (auto simp: set_str_strip brackets_not_space)
  then show ?thesis
    using assms(1) by (auto simp: call_llm_def Let_def)
qed

lemma call_llm_both_present:
  assumes "chat env (length (llm_calls w)) prompt = Inr reply"
    and "CHR ''['' \<in> set reply" "CHR '']'' \<in> set reply"
  shows "call_llm env prompt w =
           (json_loads env
              (str_slice (str_strip reply) (str_find (str_strip reply) (CHR ''[''))
                 (str_rfind (str_strip reply) (CHR '']'') + 1)),
            w\<lparr>llm_calls := llm_calls w @ [prompt]\<rparr>)"
proof -
  have "0 \<le> str_find (str_strip reply) (CHR ''['')"
    using assms(2) by (simp add: str_find_present set_str_strip brackets_not_space)
  moreover have "0 \<le> str_rfind (str_strip reply) (CHR '']'')"
    using assms(3) by (simp add: str_rfind_present set_str_strip brackets_not_space)
  ultimately show ?thesis
    using assms(1) by (simp add: call_llm_def Let_def)
qed

lemma call_llm_array:
  assumes "chat env (length (llm_calls w)) prompt = Inr (pre @ CHR ''['' # mid @ CHR '']'' # post)"
    and "CHR ''['' \<notin> set pre" "CHR '']'' \<notin> set post"
  shows "call_llm env prompt w =
           (json_loads env (CHR ''['' # mid @ [CHR '']'']), w\<lparr>llm_calls := llm_calls w @ [prompt]\<rparr>)"
proof -
  define pre' where "pre' = dropWhile isspace pre"
  define post' where "post' = rev (dropWhile isspace (rev post))"
  define reply where "reply = pre @ CHR ''['' # mid @ CHR '']'' # post"
  have raw: "str_strip reply = pre' @ CHR ''['' # mid @ CHR '']'' # post'"
    by (simp add: reply_def pre'_def post'_def str_strip_keeps brackets_not_space)
  have "CHR ''['' \<notin> set pre'"
    using assms(2) set_dropWhileD [of "CHR ''[''" isspace pre] by (auto simp: pre'_def)
  then have start: "str_find (str_strip reply) (CHR ''['') = int (length pre')"
    by (simp add: raw str_find_first)
  have "CHR '']'' \<notin> set post'"
    using assms(3) set_dropWhileD [of "CHR '']''" isspace "rev post"] by (auto simp: post'_def)
  then have "str_rfind ((pre' @ CHR ''['' # mid) @ CHR '']'' # post') (CHR '']'') =
      int (length (pre' @ CHR ''['' # mid))"
    by (rule str_rfind_last)
  then have stop: "str_rfind (str_strip reply) (CHR '']'') + 1 =
      int (length pre' + length (CHR ''['' # mid @ [CHR '']'']))"
    by (simp add: raw)
  have "str_slice (pre' @ (CHR ''['' # mid @ [CHR '']'']) @ post') (int (length pre'))
      (int (length pre' + length (CHR ''['' # mid @ [CHR '']'']))) = CHR ''['' # mid @ [CHR '']'']"
    by (rule str_slice_middle)
  then have slice: "str_slice (str_strip reply) (str_find (str_strip reply) (CHR ''[''))
      (str_rfind (str_strip reply) (CHR '']'') + 1) = CHR ''['' # mid @ [CHR '']'']"
    unfolding start stop unfolding raw by simp
  have c: "chat env (length (llm_calls w)) prompt = Inr reply"
    using assms(1) by (simp add: reply_def)
  have m: "CHR ''['' \<in> set reply" "CHR '']'' \<in> set reply"
    by (simp_all add: reply_def)
  from call_llm_both_present [OF c m] show ?thesis
    by (simp add: slice)
qed

lemma call_llm_reversed:
  assumes "chat env (length (llm_calls w)) prompt = Inr (pre @ CHR '']'' # mid @ CHR ''['' # post)"
    and "CHR ''['' \<notin> set pre" "CHR '']'' \<notin> set mid" "CHR '']'' \<notin> set post"
  shows "call_llm env prompt w = (json_loads env [], w\<lparr>llm_calls := llm_calls w @ [prompt]\<rparr>)"
proof -
  define pre' where "pre' = dropWhile isspace pre"
  define post' where "post' = rev (dropWhile isspace (rev post))"
  define reply where "reply = pre @ CHR '']'' # mid @ CHR ''['' # post"
  have raw: "str_strip reply = pre' @ CHR '']'' # mid @ CHR ''['' # post'"
    by (simp add: reply_def pre'_def post'_def str_strip_keeps brackets_not_space)
  have "CHR ''['' \<notin> set pre'"
    using assms(2) set_dropWhileD [of "CHR ''[''" isspace pre] by (auto simp: pre'_def)
  then have "takeWhile (\<lambda>x. x \<noteq> CHR ''['') ((pre' @ [CHR '']'']) @ mid @ CHR ''['' # post') =
      (pre' @ [CHR '']'']) @ takeWhile (\<lambda>x. x \<noteq> CHR ''['') (mid @ CHR ''['' # post')"
    by (intro takeWhile_append2) auto
  then have start: "int (length pre') + 1 \<le> str_find (str_strip reply) (CHR ''['')"
    by (simp add: raw str_find_def)
  have "CHR '']'' \<notin> set post'"
    using assms(4) set_dropWhileD [of "CHR '']''" isspace "rev post"] by (auto simp: post'_def)
  with assms(3) have "CHR '']'' \<notin> set (mid @ CHR ''['' # post')" by simp
  then have "str_rfind (pre' @ CHR '']'' # (mid @ CHR ''['' # post')) (CHR '']'') = int (length pre')"
    by (rule str_rfind_last)
  then have stop: "str_rfind (str_strip reply) (CHR '']'') + 1 = int (length pre') + 1"
    by (simp add: raw)
  have slice: "str_slice (str_strip reply) (str_find (str_strip reply) (CHR ''[''))
      (str_rfind (str_strip reply) (CHR '']'') + 1) = []"
    using start stop by (intro str_slice_reversed) simp_all
  have c: "chat env (length (llm_calls w)) prompt = Inr reply"
    using assms(1) by (simp add: reply_def)
  have m: "CHR ''['' \<in> set reply" "CHR '']'' \<in> set reply"
    by (simp_all add: reply_def)
  from call_llm_both_present [OF c m] show ?thesis
    by (simp add: slice)
qed

subsection \<open>DocumentPackager\<close>

text \<open>
  C6. For every list of question/answer pairs and every metadata dict,
  \<open>pairs_to_documents\<close> returns, in the order of the input, one document for each pair
  whose stripped question and stripped answer are both non-empty, and nothing for any
  other pair. The content of a document is \<open>"Q: <question>\nA: <answer>"\<close> on the
  stripped fields, and its metadata is the given dict with the key \<open>question\<close> set.
  Nothing is deduplicated: a pair given twice yields two documents. The input
  \<open>[{"question":"Q","answer":""}, {"question":"Q2","answer":"A2"}]\<close> yields exactly the
  document of Q2/A2.
\<close>

theorem pairs_to_documents_keeps_nonempty:
  "pairs_to_documents (JArr (map (\<lambda>qa. qa_pair (fst qa) (snd qa)) qas)) md =
     Inr (map (\<lambda>qa. qa_document md (str_strip (fst qa)) (str_strip (snd qa))) (filter kept qas))
   \<and> page_content (qa_document md q a) = ''Q: '' @ q @ ''\<newline>A: '' @ a
   \<and> metadata (qa_document md q a) = AList.update ''question'' q md
   \<and> pairs_to_documents (JArr [qa_pair ''Q'' '''', qa_pair ''Q2'' ''A2'']) md =
       Inr [\<lparr>page_content = ''Q: Q2\<newline>A: A2'', metadata = AList.update ''question'' ''Q2'' md\<rparr>]
   \<and> pairs_to_documents (JArr [qa_pair ''Q2'' ''A2'', qa_pair ''Q2'' ''A2'']) md =
       Inr [qa_document md ''Q2'' ''A2'', qa_document md ''Q2'' ''A2'']"
proof -
  have general: "pairs_to_documents (JArr (map (\<lambda>qa. qa_pair (fst qa) (snd qa)) qas)) md =
     Inr (map (\<lambda>qa. qa_document md (str_strip (fst qa)) (str_strip (snd qa))) (filter kept qas))"
    for qas
    by (simp add: pairs_to_documents_def pairs_loop_qa_pairs)
  have strip_Q: "str_strip ''Q'' = ''Q''" "str_strip ''Q2'' = ''Q2''" "str_strip ''A2'' = ''A2''"
    "str_strip [] = []"
    by (simp_all add: str_strip_def isspace_def)
  have ex1: "pairs_to_documents (JArr [qa_pair ''Q'' '''', qa_pair ''Q2'' ''A2'']) md =
       Inr [\<lparr>page_content = ''Q: Q2\<newline>A: A2'', metadata = AList.update ''question'' ''Q2'' md\<rparr>]"
    using general [of "[(''Q'', ''''), (''Q2'', ''A2'')]"]
    by (simp add: kept_def strip_Q qa_document_def)
  have ex2: "pairs_to_documents (JArr [qa_pair ''Q2'' ''A2'', qa_pair ''Q2'' ''A2'']) md =
       Inr [qa_document md ''Q2'' ''A2'', qa_document md ''Q2'' ''A2'']"
    using general [of "[(''Q2'', ''A2''), (''Q2'', ''A2'')]"]
    by (simp add: kept_def strip_Q)
  show ?thesis
    using general ex1 ex2 by (simp add: qa_document_def)
qed

subsection \<open>QueryFilterBuilder\<close>

text \<open>
  C7. An input of \<open>query\<close> counts as absent when it is \<open>None\<close>, the placeholder
  \<open>"string"\<close> or the empty string. For every \<open>release\<close> and \<open>doc_type\<close> the filter of
  \<open>query\<close> is no filter when both are absent, the equality on the one that is given when
  the other is absent, and the conjunction of both equalities, release first, when both
  are given. It is a function of its two inputs, defined on all of them, and it is the
  composition that \<open>debug_query\<close> repeats, applied to the inputs with the placeholder
  removed.
\<close>

theorem query_where_cases:
  "(absent x \<longleftrightarrow> x = None \<or> x = Some ''string'' \<or> x = Some [])
   \<and> query_where release doc_type =
       (case (if absent release then None else release, if absent doc_type then None else doc_type) of
          (None, None) \<Rightarrow> None
        | (Some r, None) \<Rightarrow> Some (Eq ''release'' r)
        | (None, Some d) \<Rightarrow> Some (Eq ''doc_type'' d)
        | (Some r, Some d) \<Rightarrow> Some (And [Eq ''release'' r, Eq ''doc_type'' d]))
   \<and> query_where release doc_type =
       debug_query_where (ignore_placeholder release) (ignore_placeholder doc_type)"
  by (auto simp: absent_def query_where_def debug_query_where_def build_where_def
      ignore_placeholder_def split: option.splits)

subsection \<open>RetrievalService\<close>

text \<open>
  C8. Whenever \<open>query\<close> returns a response, the documents \<open>docs\<close> that the similarity
  search returned for the question, \<open>k\<close> and the filter are such that: the context given
  to the chain is the sentinel \<open>"No relevant documents were found."\<close> when \<open>docs\<close> is
  empty and otherwise the contents of \<open>docs\<close> joined by \<open>"\n\n---\n\n"\<close> (the first content,
  then the separator before each further content); and the sources of the response are
  the documents of \<open>docs\<close>, as many, in the same order, each with its content and its
  metadata.
\<close>

theorem query_context_and_sources:
  assumes "query qe a request = Inr response"
  shows "\<exists>store docs.
           vectorstore a = Some store
         \<and> similarity_search qe store (req_question request) (req_k request)
              (query_where (req_release request) (req_doc_type request)) = Inr docs
         \<and> chain_invoke qe
              (if docs = [] then ''No relevant documents were found.''
               else str_join ''\<newline>\<newline>---\<newline>\<newline>'' (map page_content docs))
              (req_question request) = Inr (answer response)
         \<and> str_join ''\<newline>\<newline>---\<newline>\<newline>'' (map page_content docs) =
              (case docs of [] \<Rightarrow> [] | d # ds \<Rightarrow>
                 page_content d @ concat (map (\<lambda>x. ''\<newline>\<newline>---\<newline>\<newline>'' @ page_content x) ds))
         \<and> length (sources response) = length docs
         \<and> map content (sources response) = map page_content docs
         \<and> map source_metadata (sources response) = map metadata docs"
proof -
  from assms obtain store model where sm: "vectorstore a = Some store" "llm a = Some model"
    by (auto simp: query_def split: option.splits prod.splits)
  from assms sm obtain docs where
    docs: "similarity_search qe store (req_question request) (req_k request)
              (query_where (req_release request) (req_doc_type request)) = Inr docs"
    by (auto simp: query_def split: if_splits sum.splits)
  from assms sm docs obtain reply where
    reply: "chain_invoke qe (build_context docs) (req_question request) = Inr reply"
    and resp: "response = \<lparr>answer = reply, sources = map to_source docs\<rparr>"
    by (auto simp: query_def split: if_splits sum.splits)
  have join: "str_join ''\<newline>\<newline>---\<newline>\<newline>'' (map page_content docs) =
              (case docs of [] \<Rightarrow> [] | d # ds \<Rightarrow>
                 page_content d @ concat (map (\<lambda>x. ''\<newline>\<newline>---\<newline>\<newline>'' @ page_content x) ds))"
    by (cases docs) (simp_all add: str_join_Cons comp_def)
  have ctx: "build_context docs = (if docs = [] then ''No relevant documents were found.''
               else str_join ''\<newline>\<newline>---\<newline>\<newline>'' (map page_content docs))"
    by (simp add: build_context_def context_separator_def)
  have srcs: "map content (sources response) = map page_content docs"
    "map source_metadata (sources response) = map metadata docs"
    by (simp_all add: resp to_source_def comp_def)
  show ?thesis
    using sm docs reply ctx join srcs resp by (intro exI [of _ store] exI [of _ docs]) simp
qed

theorem query_context_and_sources_witness:
  "query example_query_env example_app example_request =
     Inr \<lparr>answer = ''Q: How many defects?\<newline>A: 12\<newline>\<newline>---\<newline>\<newline>Q: How many runs?\<newline>A: 40'',
          sources = map to_source example_store\<rparr>
   \<and> (\<exists>store docs.
           vectorstore example_app = Some store
         \<and> similarity_search example_query_env store ''most defects'' 8
              (Some (Eq ''release'' ''ReleaseA'')) = Inr docs
         \<and> map content (map to_source example_store) = map page_content docs
         \<and> map source_metadata (map to_source example_store) = map metadata docs)"
proof -
  have run: "query example_query_env example_app example_request =
     Inr \<lparr>answer = ''Q: How many defects?\<newline>A: 12\<newline>\<newline>---\<newline>\<newline>Q: How many runs?\<newline>A: 40'',
          sources = map to_source example_store\<rparr>"
    by (simp add: query_def example_query_env_def example_app_def example_request_def
        example_store_def build_context_def context_separator_def)
  have flt: "query_where (req_release example_request) (req_doc_type example_request) =
      Some (Eq ''release'' ''ReleaseA'')"
    by (simp add: query_where_def build_where_def ignore_placeholder_def example_request_def)
  have req: "req_question example_request = ''most defects''" "req_k example_request = 8"
    by (simp_all add: example_request_def)
  from query_context_and_sources [OF run] show ?thesis
    unfolding flt req using run by auto
qed

text \<open>
  C9. \<open>query\<close> answers 503 when the vector store or the chat model is not set, and 503
  when both are set and the running flag of the ingestion is set; in every other state
  its result is that of the retrieval followed by the synthesis. So a 503 is answered
  exactly in the states in which the store or the model is missing or an ingestion is
  recorded as running.
\<close>

theorem query_unavailable:
  "(if vectorstore a = None \<or> llm a = None
      then query qe a request = Inl (HTTPException 503 Service_not_ready)
    else if ingest_running a
      then query qe a request = Inl (HTTPException 503 Ingestion_in_progress)
    else query qe a request =
      (case similarity_search qe (the (vectorstore a)) (req_question request) (req_k request)
              (query_where (req_release request) (req_doc_type request)) of
         Inl e \<Rightarrow> Inl (Unhandled e)
       | Inr docs \<Rightarrow>
           (case chain_invoke qe (build_context docs) (req_question request) of
              Inl e \<Rightarrow> Inl (Unhandled e)
            | Inr reply \<Rightarrow> Inr \<lparr>answer = reply, sources = map to_source docs\<rparr>)))
   \<and> ((\<exists>d. query qe a request = Inl (HTTPException 503 d)) \<longleftrightarrow>
        vectorstore a = None \<or> llm a = None \<or> ingest_running a)"
  by (auto simp: query_def split: option.splits sum.splits)

subsection \<open>QAGenerator\<close>

text \<open>
  C5. When the model answers with a reply, \<open>_call_llm\<close> returns the empty list, without
  raising, if \<open>[\<close> or \<open>]\<close> does not occur in the reply; otherwise it returns what
  \<open>json.loads\<close> makes of the substring from the first \<open>[\<close> through the last \<open>]\<close>. For
  the reply \<open>Sure, here it is: [{"question":"Q1","answer":"A1"}] thanks!\<close> the substring
  is the array, and the result is the one pair of Q1 and A1 when the decoder reads the
  array so, as the decoder of the examples does.
\<close>

theorem call_llm_extracts_array:
  assumes "chat env (length (llm_calls w)) prompt = Inr reply"
  shows "(CHR ''['' \<notin> set reply \<or> CHR '']'' \<notin> set reply \<longrightarrow>
            fst (call_llm env prompt w) = Inr (JArr []))
       \<and> (\<forall>pre mid post.
            reply = pre @ CHR ''['' # mid @ CHR '']'' # post \<and>
            CHR ''['' \<notin> set pre \<and> CHR '']'' \<notin> set post \<longrightarrow>
            fst (call_llm env prompt w) = json_loads env (CHR ''['' # mid @ [CHR '']'']))
       \<and> (reply = robust_reply \<and> json_loads env robust_array = Inr (JArr [qa_pair ''Q1'' ''A1'']) \<longrightarrow>
            fst (call_llm env prompt w) = Inr (JArr [qa_pair ''Q1'' ''A1'']))"
proof (intro conjI allI impI)
  assume "CHR ''['' \<notin> set reply \<or> CHR '']'' \<notin> set reply"
  with assms show "fst (call_llm env prompt w) = Inr (JArr [])"
    by (simp add: call_llm_no_array)
next
  fix pre mid post
  assume "reply = pre @ CHR ''['' # mid @ CHR '']'' # post \<and>
            CHR ''['' \<notin> set pre \<and> CHR '']'' \<notin> set post"
  with assms show "fst (call_llm env prompt w) = json_loads env (CHR ''['' # mid @ [CHR '']''])"
    by (simp add: call_llm_array)
next
  assume a: "reply = robust_reply \<and> json_loads env robust_array = Inr (JArr [qa_pair ''Q1'' ''A1''])"
  have "robust_reply = ''Sure, here it is: '' @ CHR ''['' # butlast (tl robust_array) @ CHR '']'' # '' thanks!''"
    by (simp add: robust_reply_def robust_array_def)
  with a assms have "chat env (length (llm_calls w)) prompt =
      Inr (''Sure, here it is: '' @ CHR ''['' # butlast (tl robust_array) @ CHR '']'' # '' thanks!'')"
    by simp
  then have "call_llm env prompt w =
      (json_loads env (CHR ''['' # butlast (tl robust_array) @ [CHR '']'']),
       w\<lparr>llm_calls := llm_calls w @ [prompt]\<rparr>)"
    by (rule call_llm_array) simp_all
  moreover have "CHR ''['' # butlast (tl robust_array) @ [CHR '']''] = robust_array"
    by (simp add: robust_array_def)
  ultimately show "fst (call_llm env prompt w) = Inr (JArr [qa_pair ''Q1'' ''A1''])"
    using a by simp
qed

theorem call_llm_extracts_array_witness:
  "chat (example_env example_docs_dir (\<lambda>n p. Inr robust_reply))
      (length (llm_calls example_world)) ''defects of ReleaseA'' = Inr robust_reply
   \<and> json_loads_std robust_array = Inr (JArr [qa_pair ''Q1'' ''A1''])
   \<and> fst (call_llm (example_env example_docs_dir (\<lambda>n p. Inr robust_reply))
        ''defects of ReleaseA'' example_world) = Inr (JArr [qa_pair ''Q1'' ''A1''])"
proof -
  let ?env = "example_env example_docs_dir (\<lambda>n p. Inr robust_reply)"
  have c: "chat ?env (length (llm_calls example_world)) ''defects of ReleaseA'' = Inr robust_reply"
    by (simp add: example_env_def)
  have d: "json_loads_std robust_array = Inr (JArr [qa_pair ''Q1'' ''A1''])"
    by code_simp
  have l: "json_loads ?env = json_loads_std"
    by (simp add: example_env_def)
  from call_llm_extracts_array [OF c] d l
  have "fst (call_llm ?env ''defects of ReleaseA'' example_world) = Inr (JArr [qa_pair ''Q1'' ''A1''])"
    by simp
  with c d show ?thesis by simp
qed

text \<open>
  C10. When the model answers with a reply, \<open>_call_llm\<close> records its warning, and returns
  the empty list, exactly when \<open>[\<close> or \<open>]\<close> does not occur in the reply. When both occur
  no warning is recorded; and when the last \<open>]\<close> stands before the first \<open>[\<close> the result
  is that of \<open>json.loads\<close> on the empty string, which is a JSON decoding error for a
  decoder that rejects the empty string, as the standard one does.
\<close>

theorem call_llm_soft_failure_iff:
  assumes "chat env (length (llm_calls w)) prompt = Inr reply"
  shows "(warnings (snd (call_llm env prompt w)) = warnings w @ [Could_not_locate_JSON_array]
            \<longleftrightarrow> CHR ''['' \<notin> set reply \<or> CHR '']'' \<notin> set reply)
       \<and> (CHR ''['' \<in> set reply \<and> CHR '']'' \<in> set reply \<longrightarrow>
            warnings (snd (call_llm env prompt w)) = warnings w)
       \<and> (\<forall>pre mid post.
            reply = pre @ CHR '']'' # mid @ CHR ''['' # post \<and>
            CHR ''['' \<notin> set pre \<and> CHR '']'' \<notin> set mid \<and> CHR '']'' \<notin> set post \<longrightarrow>
            fst (call_llm env prompt w) = json_loads env [] \<and>
            (json_loads env [] = Inl JSONDecodeError \<longrightarrow>
               fst (call_llm env prompt w) = Inl JSONDecodeError))"
proof -
  have present: "warnings (snd (call_llm env prompt w)) = warnings w"
    if "CHR ''['' \<in> set reply \<and> CHR '']'' \<in> set reply"
  proof -
    from that have "call_llm env prompt w =
           (json_loads env
              (str_slice (str_strip reply) (str_find (str_strip reply) (CHR ''[''))
                 (str_rfind (str_strip reply) (CHR '']'') + 1)),
            w\<lparr>llm_calls := llm_calls w @ [prompt]\<rparr>)"
      using call_llm_both_present [OF assms] by blast
    then show ?thesis by simp
  qed
  have absent: "warnings (snd (call_llm env prompt w)) = warnings w @ [Could_not_locate_JSON_array]"
    if "CHR ''['' \<notin> set reply \<or> CHR '']'' \<notin> set reply"
    using call_llm_no_array [OF assms that] by simp
  have first: "warnings (snd (call_llm env prompt w)) = warnings w @ [Could_not_locate_JSON_array]
            \<longleftrightarrow> CHR ''['' \<notin> set reply \<or> CHR '']'' \<notin> set reply"
  proof (cases "CHR ''['' \<in> set reply \<and> CHR '']'' \<in> set reply")
    case True
    then have "warnings (snd (call_llm env prompt w)) = warnings w" by (rule present)
    with True show ?thesis by simp
  next
    case False
    then have "CHR ''['' \<notin> set reply \<or> CHR '']'' \<notin> set reply" by blast
    with absent show ?thesis by blast
  qed
  have third: "fst (call_llm env prompt w) = json_loads env []"
    if "reply = pre @ CHR '']'' # mid @ CHR ''['' # post \<and>
            CHR ''['' \<notin> set pre \<and> CHR '']'' \<notin> set mid \<and> CHR '']'' \<notin> set post"
    for pre mid post
  proof -
    from that assms have "chat env (length (llm_calls w)) prompt =
        Inr (pre @ CHR '']'' # mid @ CHR ''['' # post)" by simp
    from call_llm_reversed [OF this] that show ?thesis by simp
  qed
  show ?thesis
  proof (intro conjI allI impI)
    show "warnings (snd (call_llm env prompt w)) = warnings w @ [Could_not_locate_JSON_array]
            \<longleftrightarrow> CHR ''['' \<notin> set reply \<or> CHR '']'' \<notin> set reply"
      by (rule first)
  next
    assume "CHR ''['' \<in> set reply \<and> CHR '']'' \<in> set reply"
    then show "warnings (snd (call_llm env prompt w)) = warnings w" by (rule present)
  next
    fix pre mid post
    assume d: "reply = pre @ CHR '']'' # mid @ CHR ''['' # post \<and>
            CHR ''['' \<notin> set pre \<and> CHR '']'' \<notin> set mid \<and> CHR '']'' \<notin> set post"
    then show r: "fst (call_llm env prompt w) = json_loads env []" by (rule third)
    assume "json_loads env [] = Inl JSONDecodeError"
    with r show "fst (call_llm env prompt w) = Inl JSONDecodeError" by simp
  qed
qed

theorem call_llm_soft_failure_iff_witness:
  "chat (example_env example_docs_dir (\<lambda>n p. Inr ''] then [''))
      (length (llm_calls example_world)) ''defects of ReleaseA'' = Inr ''] then [''
   \<and> json_loads_std [] = Inl JSONDecodeError
   \<and> fst (call_llm (example_env example_docs_dir (\<lambda>n p. Inr ''] then ['')) ''defects of ReleaseA''
       example_world) = Inl JSONDecodeError
   \<and> warnings (snd (call_llm (example_env example_docs_dir (\<lambda>n p. Inr ''] then [''))
       ''defects of ReleaseA'' example_world)) = []"
proof -
  let ?env = "example_env example_docs_dir (\<lambda>n p. Inr ''] then ['')"
  have c: "chat ?env (length (llm_calls example_world)) ''defects of ReleaseA'' = Inr ''] then [''"
    by (simp add: example_env_def)
  have d: "json_loads_std [] = Inl JSONDecodeError"
    by (simp add: json_loads_std_def skip_ws_def)
  have l: "json_loads ?env = json_loads_std"
    by (simp add: example_env_def)
  note t = call_llm_soft_failure_iff [OF c]
  from t have s: "warnings (snd (call_llm ?env ''defects of ReleaseA'' example_world)) =
      warnings example_world"
    by simp
  from t have "''] then ['' = [] @ CHR '']'' # '' then '' @ CHR ''['' # [] \<and>
            CHR ''['' \<notin> set [] \<and> CHR '']'' \<notin> set '' then '' \<and> CHR '']'' \<notin> set [] \<longrightarrow>
            fst (call_llm ?env ''defects of ReleaseA'' example_world) = json_loads ?env []"
    by blast
  then have "fst (call_llm ?env ''defects of ReleaseA'' example_world) = json_loads ?env []"
    by simp
  with l d have r: "fst (call_llm ?env ''defects of ReleaseA'' example_world) = Inl JSONDecodeError"
    by simp
  from c d r s show ?thesis by (simp add: example_world_def)
qed

end
